theory Spec2Isabelle
  imports Main "HOL-Library.AList" "HOL-Library.Sublist"
begin

section \<open>The Jira filter client (src/api/filter.js)\<close>

text \<open>
  The module builds one request descriptor per REST action and hands it to the
  collaborator's \<open>makeRequest\<close>. It is written in JavaScript, so the values it reads from
  its \<open>opts\<close> argument are dynamically typed: the model carries them as \<open>jsval\<close> and writes
  out the conversions (truthiness, conversion to string) the source relies on.
\<close>

subsection \<open>JavaScript values\<close>

text \<open>
  \<open>JNum n\<close> is the integral Number \<open>n\<close> (a safe integer, below \<open>2^53\<close> in magnitude);
  \<open>JStr\<close> carries the characters of a string; \<open>JArr\<close> is a dense array; \<open>JObj\<close> is a
  plain data object, its own properties in insertion order, with no own \<open>toString\<close> or
  \<open>valueOf\<close>. The \<open>opts\<close> argument of an operation is such an object.
\<close>

datatype jsval =
    JUndefined
  | JNull
  | JBool bool
  | JNum int
  | JStr string
  | JArr "jsval list"
  | JObj "(string \<times> jsval) list"

type_synonym object = "(string \<times> jsval) list"

datatype error = TypeError

text \<open>Reading a property of a plain object: \<open>undefined\<close> when the key is absent.\<close>

definition get_prop :: "object \<Rightarrow> string \<Rightarrow> jsval" where
  "get_prop obj k = (case map_of obj k of None \<Rightarrow> JUndefined | Some v \<Rightarrow> v)"

text \<open>What \<open>if (v)\<close> and \<open>!v\<close> test.\<close>

fun truthy :: "jsval \<Rightarrow> bool" where
  "truthy JUndefined = False"
| "truthy JNull = False"
| "truthy (JBool b) = b"
| "truthy (JNum n) = (n \<noteq> 0)"
| "truthy (JStr s) = (s \<noteq> [])"
| "truthy (JArr xs) = True"
| "truthy (JObj ps) = True"

text \<open>Decimal digits of a natural number, most significant first.\<close>

fun string_of_nat :: "nat \<Rightarrow> string" where
  "string_of_nat n =
     (if n < 10 then [''0123456789'' ! n]
      else string_of_nat (n div 10) @ [''0123456789'' ! (n mod 10)])"

declare string_of_nat.simps [simp del]

text \<open>
  The conversion \<open>'' + v\<close> applies to \<open>v\<close>. An array converts to its elements joined by
  commas, \<open>undefined\<close> and \<open>null\<close> elements contributing the empty string.
\<close>

primrec ToString :: "jsval \<Rightarrow> string"
  and join_elements :: "jsval list \<Rightarrow> string" where
  "ToString JUndefined = ''undefined''"
| "ToString JNull = ''null''"
| "ToString (JBool b) = (if b then ''true'' else ''false'')"
| "ToString (JNum n) =
     (if n < 0 then ''-'' @ string_of_nat (nat (- n)) else string_of_nat (nat n))"
| "ToString (JStr s) = s"
| "ToString (JArr xs) = join_elements xs"
| "ToString (JObj ps) = ''[object Object]''"
| "join_elements [] = ''''"
| "join_elements (x # xs) =
     (if x = JUndefined \<or> x = JNull then '''' else ToString x)
     @ (case xs of [] \<Rightarrow> '''' | _ # _ \<Rightarrow> '','' @ join_elements xs)"

subsection \<open>Request descriptors and the collaborator\<close>

text \<open>
  The object literal handed to \<open>makeRequest\<close>. \<open>body\<close> and \<open>qs\<close> are \<open>None\<close> when the literal
  has no such property.
\<close>

record request =
  uri :: string
  "method" :: string
  body :: "jsval option"
  qs :: "object option"
  followAllRedirects :: bool
  json :: bool

text \<open>
  The collaborator \<open>jiraClient\<close> is injected and its code is not part of this module:
  \<open>buildURL\<close> is a parameter of every operation, and the one call an operation makes to
  \<open>makeRequest\<close> is the value the operation returns.
\<close>

record 'cb makeRequest_call =
  descriptor :: request
  callback :: 'cb
  successMessage :: "string option"

subsection \<open>Joining a list parameter\<close>

text \<open>
  The loop \<open>xs.forEach(function (x) { s += x + ',' })\<close> on the accumulator \<open>s\<close>.
\<close>

fun forEach_append :: "string \<Rightarrow> jsval list \<Rightarrow> string" where
  "forEach_append s [] = s"
| "forEach_append s (x # xs) = forEach_append (s @ (ToString x @ '','')) xs"

text \<open>
  \<open>s = ''; v.forEach(...)\<close> for a truthy \<open>v\<close>: only an array has \<open>forEach\<close>, so the call
  raises a TypeError on anything else.
\<close>

fun forEach_join :: "jsval \<Rightarrow> error + string" where
  "forEach_join (JArr xs) = Inr (forEach_append '''' xs)"
| "forEach_join v = Inl TypeError"

text \<open>\<open>s.slice(0, -1)\<close>: all of \<open>s\<close> but its last character, and \<open>''\<close> for \<open>''\<close>.\<close>

definition slice_0_m1 :: "string \<Rightarrow> string" where
  "slice_0_m1 s = take (length s - 1) s"

subsection \<open>buildRequestOptions\<close>

text \<open>
  The block \<open>if (opts.k) { qs.k = ''; opts.k.forEach(...); qs.k = qs.k.slice(0, -1); }\<close>
  of the shared helper, for the key \<open>k\<close>.
\<close>

definition add_list_param :: "object \<Rightarrow> string \<Rightarrow> object \<Rightarrow> error + object" where
  "add_list_param opts k q =
     (if truthy (get_prop opts k) then
        (case forEach_join (get_prop opts k) of
           Inl e \<Rightarrow> Inl e
         | Inr s \<Rightarrow> Inr (AList.update k (JStr (slice_0_m1 s)) q))
      else Inr q)"

definition buildRequestOptions ::
  "(string \<Rightarrow> string) \<Rightarrow> object \<Rightarrow> string \<Rightarrow> string \<Rightarrow> jsval \<Rightarrow> object option
    \<Rightarrow> error + request" where
  "buildRequestOptions buildURL opts path meth body0 qs0 =
     (let basePath = ''/filter/'' @ ToString (get_prop opts ''filterId'');
          qs1 = (case qs0 of None \<Rightarrow> [] | Some q \<Rightarrow> q);
          body1 = (if \<not> truthy body0 then JObj [] else body0)
      in case add_list_param opts ''fields'' qs1 of
           Inl e \<Rightarrow> Inl e
         | Inr qs2 \<Rightarrow>
             (case add_list_param opts ''expand'' qs2 of
                Inl e \<Rightarrow> Inl e
              | Inr qs3 \<Rightarrow>
                  Inr \<lparr>uri = buildURL (basePath @ path), method = meth, body = Some body1,
                       qs = Some qs3, followAllRedirects = True, json = True\<rparr>))"

subsection \<open>The public operations\<close>

text \<open>Handing a descriptor to \<open>makeRequest\<close>, when building it did not raise.\<close>

definition call_makeRequest ::
  "error + request \<Rightarrow> 'cb \<Rightarrow> string option \<Rightarrow> error + 'cb makeRequest_call" where
  "call_makeRequest r cb msg =
     (case r of
        Inl e \<Rightarrow> Inl e
      | Inr d \<Rightarrow> Inr \<lparr>descriptor = d, callback = cb, successMessage = msg\<rparr>)"

definition createFilter ::
  "(string \<Rightarrow> string) \<Rightarrow> object \<Rightarrow> 'cb \<Rightarrow> error + 'cb makeRequest_call" where
  "createFilter buildURL opts cb =
     (let options = \<lparr>uri = buildURL ''/filter'', method = ''POST'',
                    body = Some (get_prop opts ''filter''), qs = Some [],
                    followAllRedirects = True, json = True\<rparr>
      in call_makeRequest
           (if truthy (get_prop opts ''expand'') then
              (case forEach_join (get_prop opts ''expand'') of
                 Inl e \<Rightarrow> Inl e
               | Inr s \<Rightarrow> Inr (options\<lparr>qs := Some (AList.update ''expand'' (JStr s) [])\<rparr>))
            else Inr options)
           cb None)"

definition getFilter ::
  "(string \<Rightarrow> string) \<Rightarrow> object \<Rightarrow> 'cb \<Rightarrow> error + 'cb makeRequest_call" where
  "getFilter buildURL opts cb =
     call_makeRequest (buildRequestOptions buildURL opts '''' ''GET'' JUndefined None) cb None"

definition updateFilter ::
  "(string \<Rightarrow> string) \<Rightarrow> object \<Rightarrow> 'cb \<Rightarrow> error + 'cb makeRequest_call" where
  "updateFilter buildURL opts cb =
     call_makeRequest
       (buildRequestOptions buildURL opts '''' ''PUT'' (get_prop opts ''filter'') None)
       cb None"

definition getFilterColumns ::
  "(string \<Rightarrow> string) \<Rightarrow> object \<Rightarrow> 'cb \<Rightarrow> error + 'cb makeRequest_call" where
  "getFilterColumns buildURL opts cb =
     call_makeRequest (buildRequestOptions buildURL opts ''/columns'' ''GET'' JUndefined None)
       cb None"

definition setFilterColumns ::
  "(string \<Rightarrow> string) \<Rightarrow> object \<Rightarrow> 'cb \<Rightarrow> error + 'cb makeRequest_call" where
  "setFilterColumns buildURL opts cb =
     (let body0 = JObj [(''columns'', get_prop opts ''columns'')]
      in call_makeRequest (buildRequestOptions buildURL opts ''/columns'' ''PUT'' body0 None)
           cb (Some ''Columns Updated''))"

definition resetFilterColumns ::
  "(string \<Rightarrow> string) \<Rightarrow> object \<Rightarrow> 'cb \<Rightarrow> error + 'cb makeRequest_call" where
  "resetFilterColumns buildURL opts cb =
     call_makeRequest (buildRequestOptions buildURL opts ''/columns'' ''DELETE'' JUndefined None)
       cb (Some ''Columns Reset'')"

definition getDefaultShareScore ::
  "(string \<Rightarrow> string) \<Rightarrow> object \<Rightarrow> 'cb \<Rightarrow> error + 'cb makeRequest_call" where
  "getDefaultShareScore buildURL opts cb =
     call_makeRequest
       (Inr \<lparr>uri = buildURL ''/filter/defaultShareScope'', method = ''GET'', body = None,
             qs = None, followAllRedirects = True, json = True\<rparr>)
       cb None"

definition setDefaultShareScope ::
  "(string \<Rightarrow> string) \<Rightarrow> object \<Rightarrow> 'cb \<Rightarrow> error + 'cb makeRequest_call" where
  "setDefaultShareScope buildURL opts cb =
     call_makeRequest
       (Inr \<lparr>uri = buildURL ''/filter/defaultShareScope'', method = ''PUT'',
             body = Some (JObj [(''scope'', get_prop opts ''scope'')]),
             qs = None, followAllRedirects = True, json = True\<rparr>)
       cb None"

text \<open>
  The constructor: the operations it attaches to the client, under the property names the
  source gives them. (The client has two more properties, \<open>jiraClient\<close> and the helper
  \<open>buildRequestOptions\<close>, which are not operations taking \<open>opts\<close> and a callback.)
  Calling a property the client does not have raises a TypeError.
\<close>

definition FilterClient ::
  "(string \<Rightarrow> string) \<Rightarrow>
     (string \<times> (object \<Rightarrow> 'cb \<Rightarrow> error + 'cb makeRequest_call)) list" where
  "FilterClient buildURL =
     [(''createFilter'', createFilter buildURL),
      (''getFilter'', getFilter buildURL),
      (''updateFilter'', updateFilter buildURL),
      (''getFilterColumns'', getFilterColumns buildURL),
      (''setFilterColumns'', setFilterColumns buildURL),
      (''resetFilterColumns'', resetFilterColumns buildURL),
      (''getDefaultShareScore'', getDefaultShareScore buildURL),
      (''setDefaultShareScope'', setDefaultShareScope buildURL)]"

definition call_method ::
  "(string \<times> (object \<Rightarrow> 'cb \<Rightarrow> error + 'cb makeRequest_call)) list \<Rightarrow> string
     \<Rightarrow> object \<Rightarrow> 'cb \<Rightarrow> error + 'cb makeRequest_call" where
  "call_method client name opts cb =
     (case map_of client name of None \<Rightarrow> Inl TypeError | Some f \<Rightarrow> f opts cb)"

subsection \<open>Notions the properties are stated with\<close>

text \<open>
  \<open>s.split(',')\<close>: the segments of \<open>s\<close> between commas; a string without a comma, the
  empty one included, is its single segment.
\<close>

fun split_comma :: "string \<Rightarrow> string list" where
  "split_comma [] = [[]]"
| "split_comma (c # cs) =
     (if c = CHR '','' then [] # split_comma cs
      else (case split_comma cs of [] \<Rightarrow> [[c]] | w # ws \<Rightarrow> (c # w) # ws))"

text \<open>
  The documented type of \<open>opts.fields\<close> and \<open>opts.expand\<close> is \<open>{Array} [...]\<close>: an array,
  or nothing. A falsy value is skipped like an absent one; any other value has no
  \<open>forEach\<close>.
\<close>

fun optional_array :: "jsval \<Rightarrow> bool" where
  "optional_array (JArr xs) = True"
| "optional_array v = (\<not> truthy v)"

definition well_typed_lists :: "object \<Rightarrow> bool" where
  "well_typed_lists opts =
     (optional_array (get_prop opts ''fields'') \<and> optional_array (get_prop opts ''expand''))"

section \<open>Facts about the helper and the operations\<close>

lemma forEach_append_concat:
  "forEach_append s xs = s @ concat (map (\<lambda>x. ToString x @ '','') xs)"
  by (induction xs arbitrary: s) simp_all

lemma forEach_append_snoc:
  "forEach_append s (xs @ [x]) = forEach_append s xs @ ToString x @ '',''"
  by (simp add: forEach_append_concat)

lemma slice_0_m1_snoc [simp]: "slice_0_m1 (s @ [c]) = s"
  by (simp add: slice_0_m1_def)

lemma slice_0_m1_Nil [simp]: "slice_0_m1 [] = []"
  by (simp add: slice_0_m1_def)

lemma slice_0_m1_butlast: "slice_0_m1 s = butlast s"
  by (simp add: slice_0_m1_def butlast_conv_take)

lemma split_comma_not_Nil [simp]: "split_comma s \<noteq> []"
  by (induction s) (auto split: list.splits)

lemma split_comma_plain: "CHR '','' \<notin> set s \<Longrightarrow> split_comma s = [s]"
  by (induction s) auto

lemma split_comma_append:
  "CHR '','' \<notin> set s \<Longrightarrow> split_comma (s @ CHR '','' # t) = s # split_comma t"
  by (induction s) auto

lemma optional_array_cases:
  "optional_array v \<Longrightarrow> (\<exists>xs. v = JArr xs) \<or> \<not> truthy v"
  by (cases v) auto

lemma add_list_param_array:
  "get_prop opts k = JArr xs \<Longrightarrow>
   add_list_param opts k q = Inr (AList.update k (JStr (slice_0_m1 (forEach_append '''' xs))) q)"
  by (simp add: add_list_param_def)

lemma add_list_param_falsy:
  "\<not> truthy (get_prop opts k) \<Longrightarrow> add_list_param opts k q = Inr q"
  by (simp add: add_list_param_def)

lemma add_list_param_returns:
  assumes "optional_array (get_prop opts k)"
  shows "\<exists>q'. add_list_param opts k q = Inr q' \<and> (\<forall>j. j \<noteq> k \<longrightarrow> map_of q' j = map_of q j)"
  using optional_array_cases [OF assms]
  by (auto simp: add_list_param_array add_list_param_falsy update_conv')


lemma slice_0_m1_middle:
  "t \<noteq> [] \<Longrightarrow> slice_0_m1 (s @ c # t) = s @ c # slice_0_m1 t"
  by (simp add: slice_0_m1_butlast butlast_append)

lemma forEach_append_strings:
  "forEach_append s (map JStr L) = s @ concat (map (\<lambda>x. x @ '','') L)"
  by (simp add: forEach_append_concat comp_def)

lemma join_round_trip:
  assumes "L \<noteq> []" and "\<forall>s \<in> set L. CHR '','' \<notin> set s"
  shows "split_comma (slice_0_m1 (concat (map (\<lambda>x. x @ '','') L))) = L"
  using assms
proof (induction L rule: list_nonempty_induct)
  case (single x)
  then show ?case by (simp add: split_comma_plain)
next
  case (cons x xs)
  from cons.hyps have ne: "concat (map (\<lambda>x. x @ '','') xs) \<noteq> []"
    by (cases xs) simp_all
  have "slice_0_m1 (concat (map (\<lambda>x. x @ '','') (x # xs)))
        = x @ CHR '','' # slice_0_m1 (concat (map (\<lambda>x. x @ '','') xs))"
    using slice_0_m1_middle [OF ne, of x "CHR '',''"] by simp
  with cons show ?case by (simp add: split_comma_append)
qed

lemma join_no_leading_comma:
  assumes "L \<noteq> []" and "\<forall>s \<in> set L. s \<noteq> [] \<and> CHR '','' \<notin> set s"
  shows "\<not> prefix '','' (slice_0_m1 (concat (map (\<lambda>x. x @ '','') L)))"
proof -
  from assms obtain c x xs where L: "L = (c # x) # xs" and c: "c \<noteq> CHR '',''"
    by (cases L; cases "hd L") auto
  have "slice_0_m1 (concat (map (\<lambda>x. x @ '','') L))
        = c # slice_0_m1 (x @ '','' @ concat (map (\<lambda>x. x @ '','') xs))"
    using slice_0_m1_middle [of "x @ '','' @ concat (map (\<lambda>x. x @ '','') xs)" "[]" c]
    by (simp add: L)
  with c show ?thesis by simp
qed

lemma join_no_trailing_comma:
  assumes "L \<noteq> []" and "\<forall>s \<in> set L. s \<noteq> [] \<and> CHR '','' \<notin> set s"
  shows "\<not> suffix '','' (slice_0_m1 (concat (map (\<lambda>x. x @ '','') L)))"
proof -
  from assms(1) obtain ys y where L: "L = ys @ [y]"
    by (cases L rule: rev_cases) auto
  with assms(2) have y: "y \<noteq> []" "CHR '','' \<notin> set y" by auto
  then obtain z c where yz: "y = z @ [c]" and c: "c \<noteq> CHR '',''"
    by (cases y rule: rev_cases) auto
  have "slice_0_m1 (concat (map (\<lambda>x. x @ '','') L))
        = (concat (map (\<lambda>x. x @ '','') ys) @ z) @ [c]"
    using slice_0_m1_snoc [of "concat (map (\<lambda>x. x @ '','') ys) @ z @ [c]" "CHR '',''"]
    by (simp add: L yz)
  moreover have "\<not> suffix ([] @ [CHR '','']) ((concat (map (\<lambda>x. x @ '','') ys) @ z) @ [c])"
    using c by (simp only: snoc_suffix_snoc) simp
  ultimately show ?thesis by simp
qed

lemma buildRequestOptions_well_typed:
  assumes "well_typed_lists opts"
  shows "\<exists>q. buildRequestOptions buildURL opts path meth body0 qs0 =
       Inr \<lparr>uri = buildURL (''/filter/'' @ ToString (get_prop opts ''filterId'') @ path),
            method = meth, body = Some (if truthy body0 then body0 else JObj []),
            qs = Some q, followAllRedirects = True, json = True\<rparr>
     \<and> (\<forall>j. j \<noteq> ''fields'' \<longrightarrow> j \<noteq> ''expand'' \<longrightarrow>
           map_of q j = map_of (case qs0 of None \<Rightarrow> [] | Some q0 \<Rightarrow> q0) j)
     \<and> (\<forall>k xs. k = ''fields'' \<or> k = ''expand'' \<longrightarrow> get_prop opts k = JArr xs \<longrightarrow>
           map_of q k = Some (JStr (slice_0_m1 (forEach_append [] xs))))
     \<and> (\<forall>k. k = ''fields'' \<or> k = ''expand'' \<longrightarrow> \<not> truthy (get_prop opts k) \<longrightarrow>
           map_of q k = map_of (case qs0 of None \<Rightarrow> [] | Some q0 \<Rightarrow> q0) k)"
proof -
  let ?q0 = "case qs0 of None \<Rightarrow> [] | Some q0 \<Rightarrow> q0"
  from assms have f: "optional_array (get_prop opts ''fields'')"
    and e: "optional_array (get_prop opts ''expand'')"
    by (simp_all add: well_typed_lists_def)
  from add_list_param_returns [OF f, of ?q0] obtain q1 where
    q1: "add_list_param opts ''fields'' ?q0 = Inr q1"
    and fr1: "\<And>j. j \<noteq> ''fields'' \<Longrightarrow> map_of q1 j = map_of ?q0 j" by blast
  from add_list_param_returns [OF e, of q1] obtain q2 where
    q2: "add_list_param opts ''expand'' q1 = Inr q2"
    and fr2: "\<And>j. j \<noteq> ''expand'' \<Longrightarrow> map_of q2 j = map_of q1 j" by blast
  have res: "buildRequestOptions buildURL opts path meth body0 qs0 =
       Inr \<lparr>uri = buildURL (''/filter/'' @ ToString (get_prop opts ''filterId'') @ path),
            method = meth, body = Some (if truthy body0 then body0 else JObj []),
            qs = Some q2, followAllRedirects = True, json = True\<rparr>"
    using q1 q2 by (simp add: buildRequestOptions_def)
  have frame: "map_of q2 j = map_of ?q0 j" if "j \<noteq> ''fields''" "j \<noteq> ''expand''" for j
    using that fr1 fr2 by simp
  have arr: "map_of q2 k = Some (JStr (slice_0_m1 (forEach_append [] xs)))"
    if "k = ''fields'' \<or> k = ''expand''" "get_prop opts k = JArr xs" for k xs
  proof -
    from that(1) show ?thesis
    proof
      assume k: "k = ''fields''"
      with that(2) q1
      have "q1 = AList.update ''fields'' (JStr (slice_0_m1 (forEach_append [] xs))) ?q0"
        by (simp add: add_list_param_array)
      then have "map_of q1 ''fields'' = Some (JStr (slice_0_m1 (forEach_append [] xs)))"
        by (simp add: update_conv')
      with fr2 [of "''fields''"] k show ?thesis by simp
    next
      assume k: "k = ''expand''"
      with that(2) q2
      have "q2 = AList.update ''expand'' (JStr (slice_0_m1 (forEach_append [] xs))) q1"
        by (simp add: add_list_param_array)
      with k show ?thesis by (simp add: update_conv')
    qed
  qed
  have falsy: "map_of q2 k = map_of ?q0 k"
    if "k = ''fields'' \<or> k = ''expand''" "\<not> truthy (get_prop opts k)" for k
  proof -
    from that(1) show ?thesis
    proof
      assume k: "k = ''fields''"
      with that(2) q1 have "q1 = ?q0" by (simp add: add_list_param_falsy)
      with fr2 [of "''fields''"] k show ?thesis by simp
    next
      assume k: "k = ''expand''"
      with that(2) q2 have "q2 = q1" by (simp add: add_list_param_falsy)
      with fr1 [of "''expand''"] k show ?thesis by simp
    qed
  qed
  from res frame arr falsy show ?thesis by blast
qed

lemma add_list_param_raises:
  "\<not> optional_array (get_prop opts k) \<Longrightarrow> add_list_param opts k q = Inl TypeError"
  by (cases "get_prop opts k") (simp_all add: add_list_param_def)

lemma buildRequestOptions_returns_iff:
  "(\<exists>d. buildRequestOptions buildURL opts path meth body0 qs0 = Inr d)
     \<longleftrightarrow> well_typed_lists opts"
proof
  assume "well_typed_lists opts"
  from buildRequestOptions_well_typed [OF this, of buildURL path meth body0 qs0]
  show "\<exists>d. buildRequestOptions buildURL opts path meth body0 qs0 = Inr d"
    by blast
next
  assume r: "\<exists>d. buildRequestOptions buildURL opts path meth body0 qs0 = Inr d"
  show "well_typed_lists opts"
  proof (rule ccontr)
    assume "\<not> well_typed_lists opts"
    then consider "\<not> optional_array (get_prop opts ''fields'')"
      | "optional_array (get_prop opts ''fields'')"
        "\<not> optional_array (get_prop opts ''expand'')"
      by (auto simp: well_typed_lists_def)
    then have "buildRequestOptions buildURL opts path meth body0 qs0 = Inl TypeError"
    proof cases
      case 1
      then show ?thesis by (simp add: buildRequestOptions_def add_list_param_raises)
    next
      case 2
      from add_list_param_returns [OF 2(1)] obtain q1 where
        "add_list_param opts ''fields'' (case qs0 of None \<Rightarrow> [] | Some q \<Rightarrow> q) = Inr q1"
        by blast
      with 2(2) show ?thesis by (simp add: buildRequestOptions_def add_list_param_raises)
    qed
    with r show False by simp
  qed
qed

lemma call_makeRequest_Inr [simp]:
  "call_makeRequest (Inr d) cb msg = Inr \<lparr>descriptor = d, callback = cb, successMessage = msg\<rparr>"
  by (simp add: call_makeRequest_def)

lemma call_makeRequest_eq_Inr:
  "call_makeRequest r cb msg = Inr c \<Longrightarrow> \<exists>d. r = Inr d \<and> descriptor c = d"
  by (cases r) (auto simp: call_makeRequest_def)

lemma buildRequestOptions_flags:
  "buildRequestOptions buildURL opts path meth body0 qs0 = Inr d \<Longrightarrow>
   followAllRedirects d \<and> json d"
  by (auto simp: buildRequestOptions_def Let_def split: sum.splits)

lemma createFilter_well_typed:
  assumes "optional_array (get_prop opts ''expand'')"
  shows "\<exists>q. createFilter buildURL opts cb =
           Inr \<lparr>descriptor = \<lparr>uri = buildURL ''/filter'', method = ''POST'',
                                body = Some (get_prop opts ''filter''), qs = Some q,
                                followAllRedirects = True, json = True\<rparr>,
                callback = cb, successMessage = None\<rparr>
     \<and> (\<forall>xs. get_prop opts ''expand'' = JArr xs \<longrightarrow>
            q = [(''expand'', JStr (forEach_append [] xs))])
     \<and> (\<not> truthy (get_prop opts ''expand'') \<longrightarrow> q = [])"
  using optional_array_cases [OF assms]
  by (auto simp: createFilter_def)

lemma buildRequestOptions_returns:
  assumes "well_typed_lists opts"
  shows "\<exists>q. buildRequestOptions buildURL opts path meth body0 qs0 =
       Inr \<lparr>uri = buildURL (''/filter/'' @ ToString (get_prop opts ''filterId'') @ path),
            method = meth, body = Some (if truthy body0 then body0 else JObj []),
            qs = Some q, followAllRedirects = True, json = True\<rparr>"
  using buildRequestOptions_well_typed [OF assms, of buildURL path meth body0 qs0]
  by blast

section \<open>The claims\<close>

subsection \<open>Joined list parameters\<close>

text \<open>
  Claim C1, as amended. For every non-empty list \<open>L\<close> of strings without commas, given as
  \<open>opts.fields\<close> or \<open>opts.expand\<close>, \<open>buildRequestOptions\<close> returns a descriptor whose query
  parameter of that name is a string that splits on \<open>','\<close> back into \<open>L\<close>. When moreover no
  element of \<open>L\<close> is empty, that string is non-empty, has no leading and no trailing comma
  and no empty segment.
\<close>

theorem list_param_round_trip:
  assumes "k = ''fields'' \<or> k = ''expand''"
    and "get_prop opts k = JArr (map JStr L)"
    and "well_typed_lists opts"
    and "L \<noteq> []"
    and "\<forall>s \<in> set L. CHR '','' \<notin> set s"
  shows "\<exists>d q str. buildRequestOptions buildURL opts path meth body0 qs0 = Inr d
           \<and> qs d = Some q \<and> map_of q k = Some (JStr str)
           \<and> split_comma str = L
           \<and> ([] \<notin> set L \<longrightarrow>
                str \<noteq> [] \<and> \<not> prefix '','' str \<and> \<not> suffix '','' str
                \<and> [] \<notin> set (split_comma str))"
proof -
  let ?str = "slice_0_m1 (concat (map (\<lambda>x. x @ '','') L))"
  from buildRequestOptions_well_typed [OF assms(3), of buildURL path meth body0 qs0]
  obtain d q where d: "buildRequestOptions buildURL opts path meth body0 qs0 = Inr d"
    and q: "qs d = Some q"
    and arr: "\<And>k xs. k = ''fields'' \<or> k = ''expand'' \<Longrightarrow> get_prop opts k = JArr xs \<Longrightarrow>
           map_of q k = Some (JStr (slice_0_m1 (forEach_append [] xs)))"
    by force
  from arr [OF assms(1,2)] have k: "map_of q k = Some (JStr ?str)"
    by (simp add: forEach_append_strings)
  have rt: "split_comma ?str = L"
    by (rule join_round_trip [OF assms(4,5)])
  have clean: "?str \<noteq> [] \<and> \<not> prefix '','' ?str \<and> \<not> suffix '','' ?str
                \<and> [] \<notin> set (split_comma ?str)" if segs: "[] \<notin> set L"
  proof -
    from segs assms(5) have ne: "\<forall>s \<in> set L. s \<noteq> [] \<and> CHR '','' \<notin> set s"
      by auto
    from assms(4) rt segs have "?str \<noteq> []"
      by (cases L) auto
    with rt segs join_no_leading_comma [OF assms(4) ne]
      join_no_trailing_comma [OF assms(4) ne]
    show ?thesis by simp
  qed
  from d q k rt clean show ?thesis by blast
qed

theorem list_param_round_trip_witness:
  "buildRequestOptions ((@) ''https://jira/rest/api/2'')
     [(''filterId'', JNum 42), (''expand'', JArr [JStr ''name'', JStr ''jql''])]
     '''' ''GET'' JUndefined None =
     Inr \<lparr>uri = ''https://jira/rest/api/2/filter/42'', method = ''GET'',
          body = Some (JObj []), qs = Some [(''expand'', JStr ''name,jql'')],
          followAllRedirects = True, json = True\<rparr>
   \<and> split_comma ''name,jql'' = [''name'', ''jql'']"
  using list_param_round_trip [of "''expand''"
      "[(''filterId'', JNum 42), (''expand'', JArr [JStr ''name'', JStr ''jql''])]"
      "[''name'', ''jql'']" "(@) ''https://jira/rest/api/2''" "''''" "''GET''" JUndefined None]
  by (simp add: buildRequestOptions_def add_list_param_def get_prop_def slice_0_m1_def
      string_of_nat.simps well_typed_lists_def)

text \<open>
  The claim as first stated also promises a string free of leading commas and of empty
  segments for every list of comma-free strings. The list \<open>['', 'a']\<close> is one, and its
  \<open>fields\<close> string is \<open>',a'\<close>.
\<close>

theorem list_param_empty_element_counterexample:
  "buildRequestOptions ((@) ''https://jira/rest/api/2'')
     [(''filterId'', JNum 42), (''fields'', JArr [JStr '''', JStr ''a''])]
     '''' ''GET'' JUndefined None =
     Inr \<lparr>uri = ''https://jira/rest/api/2/filter/42'', method = ''GET'',
          body = Some (JObj []), qs = Some [(''fields'', JStr '',a'')],
          followAllRedirects = True, json = True\<rparr>
   \<and> prefix '','' '',a'' \<and> [] \<in> set (split_comma '',a'')"
  by (simp add: buildRequestOptions_def add_list_param_def get_prop_def slice_0_m1_def
      string_of_nat.simps)

text \<open>
  Claim C2. For every non-empty \<open>expand\<close> list, \<open>buildRequestOptions\<close> sets \<open>qs.expand\<close> to
  a string \<open>s\<close> and \<open>createFilter\<close>, on the same options, sets it to \<open>s\<close> followed by a
  comma: the helper drops the comma the loop appended last, the inline code keeps it.
\<close>

theorem expand_trailing_comma:
  assumes "get_prop opts ''expand'' = JArr L"
    and "L \<noteq> []"
    and "well_typed_lists opts"
  shows "\<exists>d q s c q'. buildRequestOptions buildURL opts path meth body0 qs0 = Inr d
           \<and> qs d = Some q \<and> map_of q ''expand'' = Some (JStr s)
           \<and> createFilter buildURL opts cb = Inr c
           \<and> qs (descriptor c) = Some q' \<and> map_of q' ''expand'' = Some (JStr (s @ '',''))"
proof -
  from assms(2) obtain ys y where L: "L = ys @ [y]"
    by (cases L rule: rev_cases) auto
  let ?s = "forEach_append [] ys @ ToString y"
  have loop: "forEach_append [] L = ?s @ '',''"
    by (simp add: L forEach_append_snoc)
  then have sl: "slice_0_m1 (forEach_append [] L) = ?s"
    using slice_0_m1_snoc [of ?s "CHR '',''"] by simp
  from buildRequestOptions_well_typed [OF assms(3), of buildURL path meth body0 qs0]
  obtain d q where d: "buildRequestOptions buildURL opts path meth body0 qs0 = Inr d"
    and q: "qs d = Some q"
    and arr: "\<And>k xs. k = ''fields'' \<or> k = ''expand'' \<Longrightarrow> get_prop opts k = JArr xs \<Longrightarrow>
           map_of q k = Some (JStr (slice_0_m1 (forEach_append [] xs)))"
    by force
  from arr [of "''expand''" L] assms(1) sl
  have e: "map_of q ''expand'' = Some (JStr ?s)" by simp
  from assms(1) have "optional_array (get_prop opts ''expand'')" by simp
  from createFilter_well_typed [OF this, of buildURL cb] assms(1) loop
  obtain c where c: "createFilter buildURL opts cb = Inr c"
    and q': "qs (descriptor c) = Some [(''expand'', JStr (?s @ '',''))]"
    by force
  from d q e c q' show ?thesis by simp
qed

theorem expand_trailing_comma_witness:
  "buildRequestOptions ((@) ''https://jira/rest/api/2'')
     [(''expand'', JArr [JStr ''sharedUsers'', JStr ''subscriptions''])]
     '''' ''GET'' JUndefined None =
     Inr \<lparr>uri = ''https://jira/rest/api/2/filter/undefined'', method = ''GET'',
          body = Some (JObj []), qs = Some [(''expand'', JStr ''sharedUsers,subscriptions'')],
          followAllRedirects = True, json = True\<rparr>
   \<and> createFilter ((@) ''https://jira/rest/api/2'')
     [(''expand'', JArr [JStr ''sharedUsers'', JStr ''subscriptions''])] () =
     Inr \<lparr>descriptor =
            \<lparr>uri = ''https://jira/rest/api/2/filter'', method = ''POST'',
             body = Some JUndefined,
             qs = Some [(''expand'', JStr ''sharedUsers,subscriptions,'')],
             followAllRedirects = True, json = True\<rparr>,
          callback = (), successMessage = None\<rparr>"
  using expand_trailing_comma [of
      "[(''expand'', JArr [JStr ''sharedUsers'', JStr ''subscriptions''])]"
      "[JStr ''sharedUsers'', JStr ''subscriptions'']"
      "(@) ''https://jira/rest/api/2''" "''''" "''GET''" JUndefined None "()"]
  by (simp add: buildRequestOptions_def createFilter_def add_list_param_def get_prop_def
      slice_0_m1_def well_typed_lists_def)

text \<open>
  Claim C9. When \<open>opts.fields\<close> or \<open>opts.expand\<close> is the empty list, the descriptor of
  \<open>buildRequestOptions\<close> has the key, with the empty string as its value; \<open>createFilter\<close>
  with an empty \<open>expand\<close> list sets \<open>qs.expand\<close> to the empty string.
\<close>

theorem empty_list_param_is_empty_string:
  assumes "k = ''fields'' \<or> k = ''expand''"
    and "get_prop opts k = JArr []"
    and "well_typed_lists opts"
  shows "(\<exists>d q. buildRequestOptions buildURL opts path meth body0 qs0 = Inr d
               \<and> qs d = Some q \<and> map_of q k = Some (JStr ''''))
       \<and> (k = ''expand'' \<longrightarrow>
            (\<exists>c. createFilter buildURL opts cb = Inr c
                  \<and> qs (descriptor c) = Some [(''expand'', JStr '''')]))"
proof -
  from buildRequestOptions_well_typed [OF assms(3), of buildURL path meth body0 qs0]
  obtain d q where d: "buildRequestOptions buildURL opts path meth body0 qs0 = Inr d"
    and q: "qs d = Some q"
    and arr: "\<And>k xs. k = ''fields'' \<or> k = ''expand'' \<Longrightarrow> get_prop opts k = JArr xs \<Longrightarrow>
           map_of q k = Some (JStr (slice_0_m1 (forEach_append [] xs)))"
    by force
  from arr [OF assms(1,2)] have "map_of q k = Some (JStr '''')" by simp
  with d q have first: "\<exists>d q. buildRequestOptions buildURL opts path meth body0 qs0 = Inr d
               \<and> qs d = Some q \<and> map_of q k = Some (JStr '''')"
    by blast
  have second: "\<exists>c. createFilter buildURL opts cb = Inr c
                  \<and> qs (descriptor c) = Some [(''expand'', JStr '''')]"
    if "k = ''expand''"
  proof -
    from that assms(2) have e: "get_prop opts ''expand'' = JArr []" by simp
    then have "optional_array (get_prop opts ''expand'')" by simp
    from createFilter_well_typed [OF this, of buildURL cb] e show ?thesis by force
  qed
  from first second show ?thesis by blast
qed

theorem empty_list_param_is_empty_string_witness:
  "buildRequestOptions ((@) ''https://jira/rest/api/2'')
     [(''filterId'', JNum 42), (''expand'', JArr [])] '''' ''GET'' JUndefined None =
     Inr \<lparr>uri = ''https://jira/rest/api/2/filter/42'', method = ''GET'',
          body = Some (JObj []), qs = Some [(''expand'', JStr '''')],
          followAllRedirects = True, json = True\<rparr>
   \<and> createFilter ((@) ''https://jira/rest/api/2'')
       [(''filterId'', JNum 42), (''expand'', JArr [])] () =
     Inr \<lparr>descriptor =
            \<lparr>uri = ''https://jira/rest/api/2/filter'', method = ''POST'',
             body = Some JUndefined, qs = Some [(''expand'', JStr '''')],
             followAllRedirects = True, json = True\<rparr>,
          callback = (), successMessage = None\<rparr>"
  using empty_list_param_is_empty_string [of "''expand''"
      "[(''filterId'', JNum 42), (''expand'', JArr [])]"
      "(@) ''https://jira/rest/api/2''" "''''" "''GET''" JUndefined None "()"]
  by (simp add: buildRequestOptions_def createFilter_def add_list_param_def get_prop_def
      slice_0_m1_def string_of_nat.simps well_typed_lists_def)

text \<open>
  Claim C10. Every entry of a caller-supplied \<open>qs\<close> under a key other than \<open>fields\<close> and
  \<open>expand\<close> is in the returned descriptor's \<open>qs\<close> unchanged, and no other key is added.
\<close>

theorem buildRequestOptions_frame:
  assumes "buildRequestOptions buildURL opts path meth body0 (Some q0) = Inr d"
    and "k \<noteq> ''fields''"
    and "k \<noteq> ''expand''"
  shows "\<exists>q. qs d = Some q \<and> map_of q k = map_of q0 k"
proof -
  from assms(1) have "well_typed_lists opts"
    using buildRequestOptions_returns_iff [of buildURL opts path meth body0 "Some q0"]
    by blast
  from buildRequestOptions_well_typed [OF this, of buildURL path meth body0 "Some q0"]
  obtain d' q where d': "buildRequestOptions buildURL opts path meth body0 (Some q0) = Inr d'"
    and q: "qs d' = Some q"
    and frame: "\<And>j. j \<noteq> ''fields'' \<Longrightarrow> j \<noteq> ''expand'' \<Longrightarrow> map_of q j = map_of q0 j"
    by force
  from d' assms(1) have "d' = d" by simp
  with q frame [OF assms(2,3)] show ?thesis by blast
qed

theorem buildRequestOptions_frame_witness:
  "buildRequestOptions ((@) ''https://jira/rest/api/2'')
     [(''filterId'', JNum 42), (''fields'', JArr [JStr ''name'', JStr ''jql''])]
     '''' ''GET'' JUndefined (Some [(''maxResults'', JNum 5), (''fields'', JStr ''old'')]) =
     Inr \<lparr>uri = ''https://jira/rest/api/2/filter/42'', method = ''GET'',
          body = Some (JObj []),
          qs = Some [(''maxResults'', JNum 5), (''fields'', JStr ''name,jql'')],
          followAllRedirects = True, json = True\<rparr>
   \<and> map_of [(''maxResults'', JNum 5), (''fields'', JStr ''name,jql'')] ''maxResults''
     = map_of [(''maxResults'', JNum 5), (''fields'', JStr ''old'')] ''maxResults''"
proof -
  have r: "buildRequestOptions ((@) ''https://jira/rest/api/2'')
     [(''filterId'', JNum 42), (''fields'', JArr [JStr ''name'', JStr ''jql''])]
     '''' ''GET'' JUndefined (Some [(''maxResults'', JNum 5), (''fields'', JStr ''old'')]) =
     Inr \<lparr>uri = ''https://jira/rest/api/2/filter/42'', method = ''GET'',
          body = Some (JObj []),
          qs = Some [(''maxResults'', JNum 5), (''fields'', JStr ''name,jql'')],
          followAllRedirects = True, json = True\<rparr>"
    by (simp add: buildRequestOptions_def add_list_param_def get_prop_def slice_0_m1_def
        string_of_nat.simps)
  from buildRequestOptions_frame [OF r, of "''maxResults''"] r show ?thesis by simp
qed

subsection \<open>The operations\<close>

text \<open>
  Claim C3, evaluated on the code. The claim names the default-share-scope getter
  \<open>getDefaultShareScope\<close>; the constructor attaches it as \<open>getDefaultShareScore\<close>. Calling
  the claimed name raises a TypeError, and the GET descriptor for
  \<open>'/filter/defaultShareScope'\<close> is only reached under the misspelt name.
\<close>

theorem getDefaultShareScope_is_not_a_method:
  "call_method (FilterClient buildURL) ''getDefaultShareScope'' opts cb = Inl TypeError
   \<and> call_method (FilterClient buildURL) ''getDefaultShareScore'' opts cb =
       Inr \<lparr>descriptor =
              \<lparr>uri = buildURL ''/filter/defaultShareScope'', method = ''GET'', body = None,
               qs = None, followAllRedirects = True, json = True\<rparr>,
            callback = cb, successMessage = None\<rparr>"
  by (simp add: call_method_def FilterClient_def getDefaultShareScore_def)

text \<open>
  Claim C4. For options with \<open>filterId = 42\<close> and neither \<open>fields\<close> nor \<open>expand\<close>,
  \<open>getFilter\<close> hands \<open>makeRequest\<close> a descriptor whose URI is \<open>buildURL('/filter/42')\<close>, whose
  method is \<open>'GET'\<close> and whose body is the empty object. The URI ends in \<open>'/filter/42'\<close> for
  every collaborator whose \<open>buildURL\<close> keeps the path it is given at the end of its result.
\<close>

theorem getFilter_42:
  assumes "get_prop opts ''filterId'' = JNum 42"
    and "get_prop opts ''fields'' = JUndefined"
    and "get_prop opts ''expand'' = JUndefined"
  shows "\<exists>c. getFilter buildURL opts cb = Inr c
           \<and> uri (descriptor c) = buildURL ''/filter/42''
           \<and> method (descriptor c) = ''GET''
           \<and> body (descriptor c) = Some (JObj [])
           \<and> ((\<forall>p. suffix p (buildURL p)) \<longrightarrow> suffix ''/filter/42'' (uri (descriptor c)))"
proof -
  from assms(2,3) have "well_typed_lists opts"
    by (simp add: well_typed_lists_def)
  from buildRequestOptions_returns [OF this, of buildURL "''''" "''GET''" JUndefined None]
  obtain q where "buildRequestOptions buildURL opts '''' ''GET'' JUndefined None =
       Inr \<lparr>uri = buildURL (''/filter/'' @ ToString (get_prop opts ''filterId'') @ ''''),
            method = ''GET'', body = Some (if truthy JUndefined then JUndefined else JObj []),
            qs = Some q, followAllRedirects = True, json = True\<rparr>"
    by blast
  then have "buildRequestOptions buildURL opts '''' ''GET'' JUndefined None =
       Inr \<lparr>uri = buildURL ''/filter/42'', method = ''GET'', body = Some (JObj []),
            qs = Some q, followAllRedirects = True, json = True\<rparr>"
    by (simp add: assms(1) string_of_nat.simps)
  then show ?thesis by (simp add: getFilter_def)
qed

theorem getFilter_42_witness:
  "getFilter ((@) ''https://jira/rest/api/2'') [(''filterId'', JNum 42)] () =
     Inr \<lparr>descriptor =
            \<lparr>uri = ''https://jira/rest/api/2/filter/42'', method = ''GET'',
             body = Some (JObj []), qs = Some [], followAllRedirects = True, json = True\<rparr>,
          callback = (), successMessage = None\<rparr>
   \<and> suffix ''/filter/42'' ''https://jira/rest/api/2/filter/42''"
  using getFilter_42 [of "[(''filterId'', JNum 42)]" "(@) ''https://jira/rest/api/2''" "()"]
  by (simp add: getFilter_def buildRequestOptions_def add_list_param_def get_prop_def
      string_of_nat.simps suffix_def)

text \<open>
  Claim C5. For every \<open>filterId\<close> and \<open>columns\<close>, \<open>setFilterColumns\<close> hands \<open>makeRequest\<close> a PUT
  descriptor for the path \<open>'/filter/' + filterId + '/columns'\<close> with the body
  \<open>{columns: opts.columns}\<close> and the success message \<open>'Columns Updated'\<close>;
  \<open>resetFilterColumns\<close> hands it a DELETE descriptor for the same path and the message
  \<open>'Columns Reset'\<close>.
\<close>

theorem filter_columns_requests:
  assumes "well_typed_lists opts"
  shows "\<exists>q. setFilterColumns buildURL opts cb =
           Inr \<lparr>descriptor =
                  \<lparr>uri = buildURL (''/filter/'' @ ToString (get_prop opts ''filterId'')
                                    @ ''/columns''),
                   method = ''PUT'',
                   body = Some (JObj [(''columns'', get_prop opts ''columns'')]),
                   qs = Some q, followAllRedirects = True, json = True\<rparr>,
                callback = cb, successMessage = Some ''Columns Updated''\<rparr>
         \<and> resetFilterColumns buildURL opts cb =
           Inr \<lparr>descriptor =
                  \<lparr>uri = buildURL (''/filter/'' @ ToString (get_prop opts ''filterId'')
                                    @ ''/columns''),
                   method = ''DELETE'', body = Some (JObj []),
                   qs = Some q, followAllRedirects = True, json = True\<rparr>,
                callback = cb, successMessage = Some ''Columns Reset''\<rparr>"
proof -
  let ?b = "JObj [(''columns'', get_prop opts ''columns'')]"
  from buildRequestOptions_returns [OF assms, of buildURL "''/columns''" "''PUT''" ?b None]
  obtain q where put: "buildRequestOptions buildURL opts ''/columns'' ''PUT'' ?b None =
       Inr \<lparr>uri = buildURL (''/filter/'' @ ToString (get_prop opts ''filterId'') @ ''/columns''),
            method = ''PUT'', body = Some ?b,
            qs = Some q, followAllRedirects = True, json = True\<rparr>"
    by auto
  then have "buildRequestOptions buildURL opts ''/columns'' ''DELETE'' JUndefined None =
       Inr \<lparr>uri = buildURL (''/filter/'' @ ToString (get_prop opts ''filterId'') @ ''/columns''),
            method = ''DELETE'', body = Some (JObj []),
            qs = Some q, followAllRedirects = True, json = True\<rparr>"
    by (auto simp: buildRequestOptions_def split: sum.splits)
  with put show ?thesis
    by (simp add: setFilterColumns_def resetFilterColumns_def)
qed

theorem filter_columns_requests_witness:
  "setFilterColumns ((@) ''https://jira/rest/api/2'')
     [(''filterId'', JNum 7), (''columns'', JArr [JStr ''a'', JStr ''b''])] () =
     Inr \<lparr>descriptor =
            \<lparr>uri = ''https://jira/rest/api/2/filter/7/columns'', method = ''PUT'',
             body = Some (JObj [(''columns'', JArr [JStr ''a'', JStr ''b''])]),
             qs = Some [], followAllRedirects = True, json = True\<rparr>,
          callback = (), successMessage = Some ''Columns Updated''\<rparr>
   \<and> resetFilterColumns ((@) ''https://jira/rest/api/2'') [(''filterId'', JNum 7)] () =
     Inr \<lparr>descriptor =
            \<lparr>uri = ''https://jira/rest/api/2/filter/7/columns'', method = ''DELETE'',
             body = Some (JObj []),
             qs = Some [], followAllRedirects = True, json = True\<rparr>,
          callback = (), successMessage = Some ''Columns Reset''\<rparr>"
  using filter_columns_requests [of
      "[(''filterId'', JNum 7), (''columns'', JArr [JStr ''a'', JStr ''b''])]"
      "(@) ''https://jira/rest/api/2''" "()"]
    filter_columns_requests [of "[(''filterId'', JNum 7)]" "(@) ''https://jira/rest/api/2''" "()"]
  by (simp add: setFilterColumns_def resetFilterColumns_def buildRequestOptions_def
      add_list_param_def get_prop_def string_of_nat.simps well_typed_lists_def)

text \<open>
  Claim C6, as amended. A descriptor built through \<open>buildRequestOptions\<close> without a body has
  the empty object as its body: those of \<open>getFilter\<close>, \<open>getFilterColumns\<close> and
  \<open>resetFilterColumns\<close> always, that of \<open>updateFilter\<close> when \<open>opts.filter\<close> is absent.
  \<open>createFilter\<close> sets the body to \<open>opts.filter\<close> as it is, \<open>undefined\<close> when absent, and the
  descriptor of the default-share-scope getter has no body.
\<close>

theorem body_when_absent:
  assumes "well_typed_lists opts"
  shows "(\<not> truthy body0 \<longrightarrow>
           (\<exists>d. buildRequestOptions buildURL opts path meth body0 qs0 = Inr d
                 \<and> body d = Some (JObj [])))
       \<and> (\<exists>c. getFilter buildURL opts cb = Inr c \<and> body (descriptor c) = Some (JObj []))
       \<and> (\<exists>c. getFilterColumns buildURL opts cb = Inr c
                \<and> body (descriptor c) = Some (JObj []))
       \<and> (\<exists>c. resetFilterColumns buildURL opts cb = Inr c
                \<and> body (descriptor c) = Some (JObj []))
       \<and> (get_prop opts ''filter'' = JUndefined \<longrightarrow>
            (\<exists>c. updateFilter buildURL opts cb = Inr c
                  \<and> body (descriptor c) = Some (JObj [])))
       \<and> (\<exists>c. createFilter buildURL opts cb = Inr c
                \<and> body (descriptor c) = Some (get_prop opts ''filter''))
       \<and> (\<exists>c. getDefaultShareScore buildURL opts cb = Inr c \<and> body (descriptor c) = None)"
proof -
  have bro: "\<exists>d. buildRequestOptions buildURL opts p m b qs0 = Inr d
                 \<and> body d = Some (JObj [])" if "\<not> truthy b" for p m b qs0
    using buildRequestOptions_returns [OF assms, of buildURL p m b qs0] that by auto
  have e: "optional_array (get_prop opts ''expand'')"
    using assms by (simp add: well_typed_lists_def)
  have cf: "\<exists>c. createFilter buildURL opts cb = Inr c
                \<and> body (descriptor c) = Some (get_prop opts ''filter'')"
    using createFilter_well_typed [OF e, of buildURL cb] by auto
  have gd: "\<exists>c. getDefaultShareScore buildURL opts cb = Inr c \<and> body (descriptor c) = None"
    by (simp add: getDefaultShareScore_def)
  have gf: "\<exists>c. getFilter buildURL opts cb = Inr c \<and> body (descriptor c) = Some (JObj [])"
    using bro [of JUndefined "''''" "''GET''" None] by (auto simp: getFilter_def)
  have gc: "\<exists>c. getFilterColumns buildURL opts cb = Inr c
                \<and> body (descriptor c) = Some (JObj [])"
    using bro [of JUndefined "''/columns''" "''GET''" None]
    by (auto simp: getFilterColumns_def)
  have rc: "\<exists>c. resetFilterColumns buildURL opts cb = Inr c
                \<and> body (descriptor c) = Some (JObj [])"
    using bro [of JUndefined "''/columns''" "''DELETE''" None]
    by (auto simp: resetFilterColumns_def)
  have uf: "\<exists>c. updateFilter buildURL opts cb = Inr c
                \<and> body (descriptor c) = Some (JObj [])"
    if "get_prop opts ''filter'' = JUndefined"
    using bro [of JUndefined "''''" "''PUT''" None] that by (auto simp: updateFilter_def)
  from bro [of body0 path meth qs0] gf gc rc uf cf gd show ?thesis by blast
qed

theorem body_when_absent_witness:
  "updateFilter ((@) ''https://jira/rest/api/2'') [(''filterId'', JNum 42)] () =
     Inr \<lparr>descriptor =
            \<lparr>uri = ''https://jira/rest/api/2/filter/42'', method = ''PUT'',
             body = Some (JObj []), qs = Some [],
             followAllRedirects = True, json = True\<rparr>,
          callback = (), successMessage = None\<rparr>
   \<and> buildRequestOptions ((@) ''https://jira/rest/api/2'') [(''filterId'', JNum 42)]
       ''/columns'' ''GET'' JNull None =
     Inr \<lparr>uri = ''https://jira/rest/api/2/filter/42/columns'', method = ''GET'',
          body = Some (JObj []), qs = Some [],
          followAllRedirects = True, json = True\<rparr>"
  using body_when_absent [of "[(''filterId'', JNum 42)]" JNull
      "(@) ''https://jira/rest/api/2''" "''/columns''" "''GET''" None "()"]
  by (simp add: updateFilter_def buildRequestOptions_def add_list_param_def get_prop_def
      string_of_nat.simps well_typed_lists_def)

text \<open>
  The claim as first stated gives every operation the empty object as body when none is
  supplied. \<open>createFilter\<close> without \<open>opts.filter\<close> builds a descriptor whose body is
  \<open>undefined\<close>, and the default-share-scope getter one without a body.
\<close>

theorem body_absent_counterexample:
  "createFilter ((@) ''https://jira/rest/api/2'') [] () =
     Inr \<lparr>descriptor =
            \<lparr>uri = ''https://jira/rest/api/2/filter'', method = ''POST'',
             body = Some JUndefined, qs = Some [],
             followAllRedirects = True, json = True\<rparr>,
          callback = (), successMessage = None\<rparr>
   \<and> getDefaultShareScore ((@) ''https://jira/rest/api/2'') [] () =
     Inr \<lparr>descriptor =
            \<lparr>uri = ''https://jira/rest/api/2/filter/defaultShareScope'', method = ''GET'',
             body = None, qs = None, followAllRedirects = True, json = True\<rparr>,
          callback = (), successMessage = None\<rparr>"
  by (simp add: createFilter_def getDefaultShareScore_def get_prop_def)

text \<open>
  Claim C7. Every descriptor a public operation hands to \<open>makeRequest\<close> follows all
  redirects and has a JSON content type: \<open>followAllRedirects\<close> and \<open>json\<close> are both true.
\<close>

theorem descriptors_follow_redirects_json:
  assumes "f \<in> {createFilter buildURL, getFilter buildURL, updateFilter buildURL,
                 getFilterColumns buildURL, setFilterColumns buildURL,
                 resetFilterColumns buildURL, getDefaultShareScore buildURL,
                 setDefaultShareScope buildURL}"
    and "f opts cb = Inr c"
  shows "followAllRedirects (descriptor c) \<and> json (descriptor c)"
proof -
  have via: "followAllRedirects (descriptor c) \<and> json (descriptor c)"
    if "call_makeRequest (buildRequestOptions buildURL opts p m b None) cb msg = Inr c"
    for p m b msg
    using call_makeRequest_eq_Inr [OF that] buildRequestOptions_flags by blast
  have cf: "followAllRedirects (descriptor c) \<and> json (descriptor c)"
    if "createFilter buildURL opts cb = Inr c"
    using that
    by (auto simp: createFilter_def Let_def call_makeRequest_def split: if_splits sum.splits)
  have gd: "followAllRedirects (descriptor c) \<and> json (descriptor c)"
    if "getDefaultShareScore buildURL opts cb = Inr c"
    using that by (auto simp: getDefaultShareScore_def)
  have sd: "followAllRedirects (descriptor c) \<and> json (descriptor c)"
    if "setDefaultShareScope buildURL opts cb = Inr c"
    using that by (auto simp: setDefaultShareScope_def)
  from assms(1) consider "f = createFilter buildURL" | "f = getFilter buildURL"
    | "f = updateFilter buildURL" | "f = getFilterColumns buildURL"
    | "f = setFilterColumns buildURL" | "f = resetFilterColumns buildURL"
    | "f = getDefaultShareScore buildURL" | "f = setDefaultShareScope buildURL"
    by blast
  then show ?thesis
  proof cases
    case 1
    with assms(2) cf show ?thesis by simp
  next
    case 2
    with assms(2) via show ?thesis by (simp add: getFilter_def)
  next
    case 3
    with assms(2) via show ?thesis by (simp add: updateFilter_def)
  next
    case 4
    with assms(2) via show ?thesis by (simp add: getFilterColumns_def)
  next
    case 5
    with assms(2) via show ?thesis by (simp add: setFilterColumns_def)
  next
    case 6
    with assms(2) via show ?thesis by (simp add: resetFilterColumns_def)
  next
    case 7
    with assms(2) gd show ?thesis by simp
  next
    case 8
    with assms(2) sd show ?thesis by simp
  qed
qed

theorem descriptors_follow_redirects_json_witness:
  "setDefaultShareScope ((@) ''https://jira/rest/api/2'') [(''scope'', JStr ''GLOBAL'')] () =
     Inr \<lparr>descriptor =
            \<lparr>uri = ''https://jira/rest/api/2/filter/defaultShareScope'', method = ''PUT'',
             body = Some (JObj [(''scope'', JStr ''GLOBAL'')]), qs = None,
             followAllRedirects = True, json = True\<rparr>,
          callback = (), successMessage = None\<rparr>
   \<and> followAllRedirects
        \<lparr>uri = ''https://jira/rest/api/2/filter/defaultShareScope'', method = ''PUT'',
         body = Some (JObj [(''scope'', JStr ''GLOBAL'')]), qs = None,
         followAllRedirects = True, json = True\<rparr>
   \<and> json
        \<lparr>uri = ''https://jira/rest/api/2/filter/defaultShareScope'', method = ''PUT'',
         body = Some (JObj [(''scope'', JStr ''GLOBAL'')]), qs = None,
         followAllRedirects = True, json = True\<rparr>"
proof -
  have r: "setDefaultShareScope ((@) ''https://jira/rest/api/2'')
             [(''scope'', JStr ''GLOBAL'')] () =
     Inr \<lparr>descriptor =
            \<lparr>uri = ''https://jira/rest/api/2/filter/defaultShareScope'', method = ''PUT'',
             body = Some (JObj [(''scope'', JStr ''GLOBAL'')]), qs = None,
             followAllRedirects = True, json = True\<rparr>,
          callback = (), successMessage = None\<rparr>"
    by (simp add: setDefaultShareScope_def get_prop_def)
  from descriptors_follow_redirects_json
    [where f = "setDefaultShareScope ((@) ''https://jira/rest/api/2'')"
       and buildURL = "(@) ''https://jira/rest/api/2''", OF _ r] r
  show ?thesis by simp
qed

text \<open>
  Claim C8. No operation raises because \<open>filterId\<close> is absent. With \<open>opts.filterId\<close>
  undefined, each operation routed through \<open>buildRequestOptions\<close> still hands \<open>makeRequest\<close>
  a descriptor, whose path is \<open>'/filter/undefined'\<close> followed by the operation's suffix; the
  operations that do not read \<open>filterId\<close> make their request as well.
\<close>

theorem missing_filterId_still_requests:
  assumes "get_prop opts ''filterId'' = JUndefined"
    and "well_typed_lists opts"
  shows "(\<exists>c. getFilter buildURL opts cb = Inr c
              \<and> uri (descriptor c) = buildURL ''/filter/undefined'')
       \<and> (\<exists>c. updateFilter buildURL opts cb = Inr c
              \<and> uri (descriptor c) = buildURL ''/filter/undefined'')
       \<and> (\<exists>c. getFilterColumns buildURL opts cb = Inr c
              \<and> uri (descriptor c) = buildURL ''/filter/undefined/columns'')
       \<and> (\<exists>c. setFilterColumns buildURL opts cb = Inr c
              \<and> uri (descriptor c) = buildURL ''/filter/undefined/columns'')
       \<and> (\<exists>c. resetFilterColumns buildURL opts cb = Inr c
              \<and> uri (descriptor c) = buildURL ''/filter/undefined/columns'')
       \<and> (\<exists>c. createFilter buildURL opts cb = Inr c)
       \<and> (\<exists>c. getDefaultShareScore buildURL opts cb = Inr c)
       \<and> (\<exists>c. setDefaultShareScope buildURL opts cb = Inr c)"
proof -
  have bro: "\<exists>d. buildRequestOptions buildURL opts p m b None = Inr d
                 \<and> uri d = buildURL (''/filter/undefined'' @ p)" for p m b
    using buildRequestOptions_returns [OF assms(2), of buildURL p m b None]
    by (auto simp: assms(1))
  have gf: "\<exists>c. getFilter buildURL opts cb = Inr c
              \<and> uri (descriptor c) = buildURL ''/filter/undefined''"
    using bro [of "''''" "''GET''" JUndefined] by (auto simp: getFilter_def)
  have uf: "\<exists>c. updateFilter buildURL opts cb = Inr c
              \<and> uri (descriptor c) = buildURL ''/filter/undefined''"
    using bro [of "''''" "''PUT''" "get_prop opts ''filter''"] by (auto simp: updateFilter_def)
  have gc: "\<exists>c. getFilterColumns buildURL opts cb = Inr c
              \<and> uri (descriptor c) = buildURL ''/filter/undefined/columns''"
    using bro [of "''/columns''" "''GET''" JUndefined] by (auto simp: getFilterColumns_def)
  have sc: "\<exists>c. setFilterColumns buildURL opts cb = Inr c
              \<and> uri (descriptor c) = buildURL ''/filter/undefined/columns''"
    using bro [of "''/columns''" "''PUT''" "JObj [(''columns'', get_prop opts ''columns'')]"]
    by (auto simp: setFilterColumns_def)
  have rc: "\<exists>c. resetFilterColumns buildURL opts cb = Inr c
              \<and> uri (descriptor c) = buildURL ''/filter/undefined/columns''"
    using bro [of "''/columns''" "''DELETE''" JUndefined] by (auto simp: resetFilterColumns_def)
  have "optional_array (get_prop opts ''expand'')"
    using assms(2) by (simp add: well_typed_lists_def)
  from createFilter_well_typed [OF this, of buildURL cb]
  have cf: "\<exists>c. createFilter buildURL opts cb = Inr c" by blast
  have gd: "\<exists>c. getDefaultShareScore buildURL opts cb = Inr c"
    by (simp add: getDefaultShareScore_def)
  have sd: "\<exists>c. setDefaultShareScope buildURL opts cb = Inr c"
    by (simp add: setDefaultShareScope_def)
  from gf uf gc sc rc cf gd sd show ?thesis by blast
qed

theorem missing_filterId_still_requests_witness:
  "getFilter ((@) ''https://jira/rest/api/2'') [(''fields'', JArr [JStr ''name''])] () =
     Inr \<lparr>descriptor =
            \<lparr>uri = ''https://jira/rest/api/2/filter/undefined'', method = ''GET'',
             body = Some (JObj []), qs = Some [(''fields'', JStr ''name'')],
             followAllRedirects = True, json = True\<rparr>,
          callback = (), successMessage = None\<rparr>
   \<and> resetFilterColumns ((@) ''https://jira/rest/api/2'') [(''fields'', JArr [JStr ''name''])] () =
     Inr \<lparr>descriptor =
            \<lparr>uri = ''https://jira/rest/api/2/filter/undefined/columns'', method = ''DELETE'',
             body = Some (JObj []), qs = Some [(''fields'', JStr ''name'')],
             followAllRedirects = True, json = True\<rparr>,
          callback = (), successMessage = Some ''Columns Reset''\<rparr>"
  using missing_filterId_still_requests [of "[(''fields'', JArr [JStr ''name''])]"
      "(@) ''https://jira/rest/api/2''" "()"]
  by (simp add: getFilter_def resetFilterColumns_def buildRequestOptions_def
      add_list_param_def get_prop_def slice_0_m1_def well_typed_lists_def)

end
